theory Spec2Isabelle
  imports Complex_Main "HOL-Library.Signed_Division"
begin

section \<open>Data model of main.c\<close>

text \<open>
  The program computes with C \<^verbatim>\<open>float\<close>. The embedding idealises every
  \<^verbatim>\<open>float\<close> as a real number: \<^verbatim>\<open>sqrtf\<close>, \<^verbatim>\<open>sinf\<close> and
  \<^verbatim>\<open>cosf\<close> are the real functions, float literals are the decimal they
  denote, and no operation rounds, with one exception: the product that line 300 casts to
  \<^verbatim>\<open>int\<close> is rounded as binary32 arithmetic rounds it, because the cast makes
  the rounding visible in the score. The \<^verbatim>\<open>int\<close> score has 32 bits: every
  addition to it is written with the two's-complement wrap that the compiled program
  performs (signed overflow is undefined in C). The texture of a planet and the colour of
  a flipper belong to the renderer and are left out of the records.
\<close>

record Planet =
  x :: real
  y :: real
  radius :: real

record Vec2f =
  x :: real
  y :: real

record Flipper =
  pivotPoint :: Vec2f
  length_fl :: real
  width :: real
  currentAngle :: real
  restingAngle :: real
  activeAngle :: real
  rotationSpeedDeg :: real
  isLeftFlipper :: bool

record Ball =
  x :: real
  y :: real
  radius :: real
  velocityX :: real
  velocityY :: real

text \<open>
  The variables of \<^verbatim>\<open>main\<close> that the frame loop reads and writes. The score is the
  value of the 32-bit \<^verbatim>\<open>int\<close> of line 150; the additions to it wrap.
\<close>

record Game =
  ball :: Ball
  leftFlipper :: Flipper
  rightFlipper :: Flipper
  score :: int
  playCollisionSound :: bool

subsection \<open>Constants\<close>

text \<open>
  Modelled from the spec: the macro \<^verbatim>\<open>DEG2RAD\<close> comes from raylib.h, which is
  not part of the sources. The spec gives flipper angles and the angular rate in degrees,
  so the macro is the factor from degrees to radians.
\<close>

definition DEG2RAD :: real where
  "DEG2RAD = pi / 180"

definition SCREEN_WIDTH :: int where
  "SCREEN_WIDTH = 600"

definition SCREEN_HEIGHT :: int where
  "SCREEN_HEIGHT = 900"

definition planets :: "Planet list" where
  "planets =
    [\<lparr>Planet.x = 270, Planet.y = 320, Planet.radius = 85\<rparr>,
     \<lparr>Planet.x = 480, Planet.y = 120, Planet.radius = 55\<rparr>,
     \<lparr>Planet.x = 90, Planet.y = 120, Planet.radius = 75\<rparr>,
     \<lparr>Planet.x = 480, Planet.y = 320, Planet.radius = 48\<rparr>,
     \<lparr>Planet.x = 65, Planet.y = 470, Planet.radius = 52\<rparr>,
     \<lparr>Planet.x = 500, Planet.y = 500, Planet.radius = 50\<rparr>]"

definition GRAVITY_ACCELERATION :: real where
  "GRAVITY_ACCELERATION = 1200"

definition WALL_BOUNCE_FACTOR :: real where
  "WALL_BOUNCE_FACTOR = 7 / 10"

definition PLANET_BOUNCE_FACTOR :: real where
  "PLANET_BOUNCE_FACTOR = 85 / 100"

definition FLIPPER_BOUNCE_FACTOR :: real where
  "FLIPPER_BOUNCE_FACTOR = 90 / 100"

definition FLIPPER_IMPULSE_STRENGTH :: real where
  "FLIPPER_IMPULSE_STRENGTH = 280"

definition FLIPPER_VELOCITY_TRANSFER :: real where
  "FLIPPER_VELOCITY_TRANSFER = 5 / 10"

definition PHYSICS_SUBSTEPS :: nat where
  "PHYSICS_SUBSTEPS = 6"

definition flipperBaseScore :: "int list" where
  "flipperBaseScore = [10, 15]"

text \<open>The state of \<^verbatim>\<open>main\<close> on entry to the frame loop (lines 134 to 151).\<close>

definition initial_ball :: Ball where
  "initial_ball = \<lparr>Ball.x = 460, Ball.y = 450, Ball.radius = 14, velocityX = 0, velocityY = 0\<rparr>"

definition initial_leftFlipper :: Flipper where
  "initial_leftFlipper =
    \<lparr>pivotPoint = \<lparr>Vec2f.x = real_of_int SCREEN_WIDTH / 2 - 100,
                    Vec2f.y = real_of_int SCREEN_HEIGHT - 150\<rparr>,
     length_fl = 80, width = 15,
     currentAngle = 15 * DEG2RAD, restingAngle = 15 * DEG2RAD, activeAngle = - 45 * DEG2RAD,
     rotationSpeedDeg = 480, isLeftFlipper = True\<rparr>"

definition initial_rightFlipper :: Flipper where
  "initial_rightFlipper =
    \<lparr>pivotPoint = \<lparr>Vec2f.x = real_of_int SCREEN_WIDTH / 2 + 100,
                    Vec2f.y = real_of_int SCREEN_HEIGHT - 150\<rparr>,
     length_fl = 80, width = 15,
     currentAngle = 165 * DEG2RAD, restingAngle = 165 * DEG2RAD, activeAngle = 225 * DEG2RAD,
     rotationSpeedDeg = 480, isLeftFlipper = False\<rparr>"

definition initial_game :: Game where
  "initial_game =
    \<lparr>ball = initial_ball, leftFlipper = initial_leftFlipper,
     rightFlipper = initial_rightFlipper, score = 0, playCollisionSound = False\<rparr>"

section \<open>Machine arithmetic\<close>

text \<open>The value that a 32-bit signed integer holds after an addition: the sum, wrapped.\<close>

definition int32_wrap :: "int \<Rightarrow> int" where
  "int32_wrap n = (n + 2 ^ 31) mod 2 ^ 32 - 2 ^ 31"

text \<open>The conversion \<^verbatim>\<open>(int)\<close> of a float: truncation toward zero.\<close>

definition c_trunc :: "real \<Rightarrow> int" where
  "c_trunc r = (if 0 \<le> r then \<lfloor>r\<rfloor> else \<lceil>r\<rceil>)"

text \<open>Rounding to the nearest integer, a tie going to the even neighbour.\<close>

definition rne :: "real \<Rightarrow> int" where
  "rne r =
    (let f = \<lfloor>r\<rfloor>
     in if r - of_int f < 1 / 2 then f
        else if 1 / 2 < r - of_int f then f + 1
        else if even f then f else f + 1)"

text \<open>
  The binary32 number nearest to a real: 24 significant bits, the exponent not below
  -126 (below it the numbers are subnormal, all with the unit 2^-149), ties to even.
  Magnitudes of 2^128 and above, which binary32 turns into an infinity, do not arise
  where the model rounds.
\<close>

definition f32_exp :: "real \<Rightarrow> int" where
  "f32_exp r = max (- 126) \<lfloor>log 2 \<bar>r\<bar>\<rfloor>"

definition f32_ulp :: "real \<Rightarrow> real" where
  "f32_ulp r = 2 powr (of_int (f32_exp r) - 23)"

definition float32 :: "real \<Rightarrow> real" where
  "float32 r = (if r = 0 then 0 else of_int (rne (r / f32_ulp r)) * f32_ulp r)"

text \<open>
  The points of line 300,
  \<^verbatim>\<open>(int)(flipperBaseScore[flipperIndex] * (0.5f + segmentParameter * 0.5f))\<close>:
  the base value is converted to float, and each of the three float operations rounds.
\<close>

definition shaft_award :: "int \<Rightarrow> real \<Rightarrow> int" where
  "shaft_award baseScore segmentParameter =
    c_trunc (float32 (float32 (real_of_int baseScore)
      * float32 (5 / 10 + float32 (segmentParameter * (5 / 10)))))"

section \<open>Geometry utilities\<close>

definition RotatePoint :: "Vec2f \<Rightarrow> Vec2f \<Rightarrow> real \<Rightarrow> Vec2f" where
  "RotatePoint point pivot angle =
    (let sinAngle = sin angle; cosAngle = cos angle;
         translatedX = Vec2f.x point - Vec2f.x pivot;
         translatedY = Vec2f.y point - Vec2f.y pivot
     in \<lparr>Vec2f.x = translatedX * cosAngle - translatedY * sinAngle + Vec2f.x pivot,
         Vec2f.y = translatedX * sinAngle + translatedY * cosAngle + Vec2f.y pivot\<rparr>)"

text \<open>
  \<^verbatim>\<open>ClosestPointOnSegment\<close> returns the clamped projection parameter and writes
  the closest point through its out pointer; the model returns the pair. Every caller
  passes a non-null pointer.
\<close>

definition ClosestPointOnSegment :: "Vec2f \<Rightarrow> Vec2f \<Rightarrow> Vec2f \<Rightarrow> real \<times> Vec2f" where
  "ClosestPointOnSegment segmentStart segmentEnd point =
    (let segmentDirX = Vec2f.x segmentEnd - Vec2f.x segmentStart;
         segmentDirY = Vec2f.y segmentEnd - Vec2f.y segmentStart;
         pointDirX = Vec2f.x point - Vec2f.x segmentStart;
         pointDirY = Vec2f.y point - Vec2f.y segmentStart;
         segmentLengthSquared = segmentDirX * segmentDirX + segmentDirY * segmentDirY;
         p0 = (if segmentLengthSquared > 1 / 10 ^ 8
               then (pointDirX * segmentDirX + pointDirY * segmentDirY) / segmentLengthSquared
               else 0);
         p1 = (if p0 < 0 then 0 else p0);
         projectionParameter = (if p1 > 1 then 1 else p1)
     in (projectionParameter,
         \<lparr>Vec2f.x = Vec2f.x segmentStart + segmentDirX * projectionParameter,
          Vec2f.y = Vec2f.y segmentStart + segmentDirY * projectionParameter\<rparr>))"

definition ball_center :: "Ball \<Rightarrow> Vec2f" where
  "ball_center b = \<lparr>Vec2f.x = Ball.x b, Vec2f.y = Ball.y b\<rparr>"

definition CircleSegmentCollision :: "Vec2f \<Rightarrow> Vec2f \<Rightarrow> Ball \<Rightarrow> bool" where
  "CircleSegmentCollision segmentStart segmentEnd b =
    (let closestPoint = snd (ClosestPointOnSegment segmentStart segmentEnd (ball_center b));
         deltaX = Ball.x b - Vec2f.x closestPoint;
         deltaY = Ball.y b - Vec2f.y closestPoint;
         distanceSquared = deltaX * deltaX + deltaY * deltaY
     in distanceSquared \<le> Ball.radius b * Ball.radius b)"

section \<open>Collision resolvers\<close>

definition ReflectVelocity :: "Ball \<Rightarrow> real \<Rightarrow> real \<Rightarrow> real \<Rightarrow> Ball" where
  "ReflectVelocity b normalX normalY bounceFactor =
    (let dotProduct = velocityX b * normalX + velocityY b * normalY;
         b1 = b\<lparr>velocityX := velocityX b - 2 * dotProduct * normalX\<rparr>;
         b2 = b1\<lparr>velocityY := velocityY b1 - 2 * dotProduct * normalY\<rparr>;
         b3 = b2\<lparr>velocityX := velocityX b2 * bounceFactor\<rparr>
     in b3\<lparr>velocityY := velocityY b3 * bounceFactor\<rparr>)"

definition SeparateCircleFromSegment :: "Ball \<Rightarrow> Vec2f \<Rightarrow> Vec2f \<Rightarrow> Ball" where
  "SeparateCircleFromSegment b segmentStart segmentEnd =
    (let closestPoint = snd (ClosestPointOnSegment segmentStart segmentEnd (ball_center b));
         deltaX = Ball.x b - Vec2f.x closestPoint;
         deltaY = Ball.y b - Vec2f.y closestPoint;
         distance0 = sqrt (deltaX * deltaX + deltaY * deltaY);
         distance = (if distance0 < 1 / 10 ^ 5 then 1 / 10 ^ 5 else distance0)
     in if distance < Ball.radius b
        then let normalX = deltaX / distance;
                 normalY = deltaY / distance;
                 b1 = b\<lparr>Ball.x := Vec2f.x closestPoint + normalX * Ball.radius b\<rparr>
             in b1\<lparr>Ball.y := Vec2f.y closestPoint + normalY * Ball.radius b1\<rparr>
        else b)"

section \<open>Flipper kinematics (lines 168 to 187)\<close>

text \<open>
  The source eases the left and the right flipper with the same two-branch statement;
  \<open>update_angle\<close> is that statement, with \<open>delta\<close> the value of
  \<^verbatim>\<open>rotationSpeedRad * frameTime\<close>.
\<close>

definition update_angle :: "real \<Rightarrow> real \<Rightarrow> real \<Rightarrow> real" where
  "update_angle current target delta =
    (if current < target
     then (let c = current + delta in if c > target then target else c)
     else if current > target
     then (let c = current - delta in if c < target then target else c)
     else current)"

record Input =
  frameTime :: real
  leftFlipperActive :: bool
  rightFlipperActive :: bool

definition update_flippers :: "Input \<Rightarrow> Game \<Rightarrow> Game" where
  "update_flippers i g =
    (let leftTargetAngle = (if leftFlipperActive i then activeAngle (leftFlipper g)
                            else restingAngle (leftFlipper g));
         rightTargetAngle = (if rightFlipperActive i then activeAngle (rightFlipper g)
                             else restingAngle (rightFlipper g));
         rotationSpeedRad = rotationSpeedDeg (leftFlipper g) * DEG2RAD
     in g\<lparr>leftFlipper := (leftFlipper g)\<lparr>currentAngle :=
              update_angle (currentAngle (leftFlipper g)) leftTargetAngle
                (rotationSpeedRad * frameTime i)\<rparr>,
          rightFlipper := (rightFlipper g)\<lparr>currentAngle :=
              update_angle (currentAngle (rightFlipper g)) rightTargetAngle
                (rotationSpeedRad * frameTime i)\<rparr>\<rparr>)"

section \<open>The physics substep (lines 189 to 349)\<close>

subsection \<open>Integration, walls and drop\<close>

definition integrate :: "real \<Rightarrow> Ball \<Rightarrow> Ball" where
  "integrate substepDeltaTime b =
    (let b1 = b\<lparr>velocityY := velocityY b + GRAVITY_ACCELERATION * substepDeltaTime\<rparr>;
         b2 = b1\<lparr>Ball.x := Ball.x b1 + velocityX b1 * substepDeltaTime\<rparr>
     in b2\<lparr>Ball.y := Ball.y b2 + velocityY b2 * substepDeltaTime\<rparr>)"

definition left_wall :: "Ball \<Rightarrow> Ball" where
  "left_wall b =
    (if Ball.x b - Ball.radius b < 0
     then b\<lparr>Ball.x := Ball.radius b, velocityX := velocityX b * (- WALL_BOUNCE_FACTOR)\<rparr>
     else b)"

definition right_wall :: "Ball \<Rightarrow> Ball" where
  "right_wall b =
    (if Ball.x b + Ball.radius b > real_of_int SCREEN_WIDTH
     then b\<lparr>Ball.x := real_of_int SCREEN_WIDTH - Ball.radius b,
            velocityX := velocityX b * (- WALL_BOUNCE_FACTOR)\<rparr>
     else b)"

definition top_wall :: "Ball \<Rightarrow> Ball" where
  "top_wall b =
    (if Ball.y b - Ball.radius b < 0
     then b\<lparr>Ball.y := Ball.radius b, velocityY := velocityY b * (- WALL_BOUNCE_FACTOR)\<rparr>
     else b)"

definition drop_check :: "Game \<Rightarrow> Game" where
  "drop_check g =
    (if Ball.y (ball g) > real_of_int (SCREEN_HEIGHT + 100)
     then g\<lparr>ball := (ball g)\<lparr>Ball.x := 300, Ball.y := 450, velocityX := 0, velocityY := 0\<rparr>,
            score := 0\<rparr>
     else g)"

subsection \<open>Guide lanes (lines 217 to 225)\<close>

definition guide_lanes :: "Game \<Rightarrow> Game" where
  "guide_lanes g =
    (let boundaryYCenter = Vec2f.y (pivotPoint (leftFlipper g)) - 35;
         boundarySlope = 20;
         leftBoundaryStart = \<lparr>Vec2f.x = 0, Vec2f.y = boundaryYCenter - boundarySlope\<rparr>;
         leftBoundaryEnd = \<lparr>Vec2f.x = Vec2f.x (pivotPoint (leftFlipper g)),
                            Vec2f.y = boundaryYCenter + boundarySlope\<rparr>;
         rightBoundaryStart = \<lparr>Vec2f.x = Vec2f.x (pivotPoint (rightFlipper g)),
                               Vec2f.y = boundaryYCenter + boundarySlope\<rparr>;
         rightBoundaryEnd = \<lparr>Vec2f.x = real_of_int SCREEN_WIDTH,
                             Vec2f.y = boundaryYCenter - boundarySlope\<rparr>;
         b1 = SeparateCircleFromSegment (ball g) leftBoundaryStart leftBoundaryEnd
     in g\<lparr>ball := SeparateCircleFromSegment b1 rightBoundaryStart rightBoundaryEnd\<rparr>)"

subsection \<open>Flipper contacts (lines 227 to 329)\<close>

definition flipperEndPos :: "Flipper \<Rightarrow> Vec2f" where
  "flipperEndPos f =
    \<lparr>Vec2f.x = Vec2f.x (pivotPoint f) + length_fl f * cos (currentAngle f),
     Vec2f.y = Vec2f.y (pivotPoint f) + length_fl f * sin (currentAngle f)\<rparr>"

definition capRadius :: "Flipper \<Rightarrow> real" where
  "capRadius f = width f * (5 / 10)"

text \<open>Lines 255 to 256, repeated at 288 to 289.\<close>

definition angularVelocity :: "Flipper \<Rightarrow> real" where
  "angularVelocity f =
    (let angularDirection = (if currentAngle f - restingAngle f > 0 then 1 else - 1)
     in angularDirection * rotationSpeedDeg f * DEG2RAD)"

text \<open>The guard \<^verbatim>\<open>if (d < 1e-5f) d = 1e-5f\<close> that every resolver applies to a distance.\<close>

definition floor_distance :: "real \<Rightarrow> real" where
  "floor_distance d = (if d < 1 / 10 ^ 5 then 1 / 10 ^ 5 else d)"

text \<open>Tip cap: the test of line 246 without \<^verbatim>\<open>!hasCollided\<close>, and its body.\<close>

definition distanceToTip :: "Flipper \<Rightarrow> Ball \<Rightarrow> real" where
  "distanceToTip f b =
    (let deltaXToTip = Ball.x b - Vec2f.x (flipperEndPos f);
         deltaYToTip = Ball.y b - Vec2f.y (flipperEndPos f)
     in sqrt (deltaXToTip * deltaXToTip + deltaYToTip * deltaYToTip))"

definition tip_hit :: "Flipper \<Rightarrow> Ball \<Rightarrow> bool" where
  "tip_hit f b \<longleftrightarrow> distanceToTip f b < Ball.radius b + capRadius f"

definition tip_resolve :: "Flipper \<Rightarrow> bool \<Rightarrow> int \<Rightarrow> real \<Rightarrow> Game \<Rightarrow> Game" where
  "tip_resolve f active baseScore substepDeltaTime g =
    (let b = ball g;
         deltaXToTip = Ball.x b - Vec2f.x (flipperEndPos f);
         deltaYToTip = Ball.y b - Vec2f.y (flipperEndPos f);
         d = floor_distance (distanceToTip f b);
         normalX = deltaXToTip / d;
         normalY = deltaYToTip / d;
         b1 = (if active
               then let v1 = b\<lparr>velocityX := velocityX b
                              + normalX * FLIPPER_IMPULSE_STRENGTH * substepDeltaTime\<rparr>;
                        v2 = v1\<lparr>velocityY := velocityY v1
                              + normalY * FLIPPER_IMPULSE_STRENGTH * substepDeltaTime\<rparr>;
                        tipLinearVelocityX = - angularVelocity f
                              * (Vec2f.y (flipperEndPos f) - Vec2f.y (pivotPoint f));
                        tipLinearVelocityY = angularVelocity f
                              * (Vec2f.x (flipperEndPos f) - Vec2f.x (pivotPoint f));
                        v3 = v2\<lparr>velocityX := velocityX v2
                              + tipLinearVelocityX * FLIPPER_VELOCITY_TRANSFER\<rparr>
                    in v3\<lparr>velocityY := velocityY v3
                              + tipLinearVelocityY * FLIPPER_VELOCITY_TRANSFER\<rparr>
               else ReflectVelocity b normalX normalY FLIPPER_BOUNCE_FACTOR);
         b2 = b1\<lparr>Ball.x := Vec2f.x (flipperEndPos f) + normalX * (Ball.radius b1 + capRadius f)\<rparr>;
         b3 = b2\<lparr>Ball.y := Vec2f.y (flipperEndPos f) + normalY * (Ball.radius b2 + capRadius f)\<rparr>
     in g\<lparr>ball := b3, score := int32_wrap (score g + baseScore),
          playCollisionSound := True\<rparr>)"

text \<open>Shaft segment: the test of line 272 without \<^verbatim>\<open>!hasCollided\<close>, and its body.\<close>

definition shaft_hit :: "Flipper \<Rightarrow> Ball \<Rightarrow> bool" where
  "shaft_hit f b \<longleftrightarrow> CircleSegmentCollision (pivotPoint f) (flipperEndPos f) b"

definition shaft_resolve :: "Flipper \<Rightarrow> bool \<Rightarrow> int \<Rightarrow> real \<Rightarrow> Game \<Rightarrow> Game" where
  "shaft_resolve f active baseScore substepDeltaTime g =
    (let b = ball g;
         segmentParameter = fst (ClosestPointOnSegment (pivotPoint f) (flipperEndPos f) (ball_center b));
         closestPoint = snd (ClosestPointOnSegment (pivotPoint f) (flipperEndPos f) (ball_center b));
         normalX0 = Ball.x b - Vec2f.x closestPoint;
         normalY0 = Ball.y b - Vec2f.y closestPoint;
         normalDistance = floor_distance (sqrt (normalX0 * normalX0 + normalY0 * normalY0));
         normalX = normalX0 / normalDistance;
         normalY = normalY0 / normalDistance;
         b1 = (if active
               then let v1 = b\<lparr>velocityX := velocityX b
                              + normalX * FLIPPER_IMPULSE_STRENGTH * substepDeltaTime\<rparr>;
                        v2 = v1\<lparr>velocityY := velocityY v1
                              + normalY * FLIPPER_IMPULSE_STRENGTH * substepDeltaTime\<rparr>;
                        contactLinearVelocityX = - angularVelocity f
                              * (Vec2f.y closestPoint - Vec2f.y (pivotPoint f));
                        contactLinearVelocityY = angularVelocity f
                              * (Vec2f.x closestPoint - Vec2f.x (pivotPoint f));
                        v3 = v2\<lparr>velocityX := velocityX v2
                              + contactLinearVelocityX * FLIPPER_VELOCITY_TRANSFER\<rparr>
                    in v3\<lparr>velocityY := velocityY v3
                              + contactLinearVelocityY * FLIPPER_VELOCITY_TRANSFER\<rparr>
               else ReflectVelocity b normalX normalY FLIPPER_BOUNCE_FACTOR);
         b2 = b1\<lparr>Ball.x := Vec2f.x closestPoint + normalX * Ball.radius b1\<rparr>;
         b3 = b2\<lparr>Ball.y := Vec2f.y closestPoint + normalY * Ball.radius b2\<rparr>
     in g\<lparr>ball := b3,
          score := int32_wrap (score g + shaft_award baseScore segmentParameter),
          playCollisionSound := True\<rparr>)"

text \<open>Pivot cap: the test of line 310 and its body.\<close>

definition distanceToPivot :: "Flipper \<Rightarrow> Ball \<Rightarrow> real" where
  "distanceToPivot f b =
    (let deltaXToPivot = Ball.x b - Vec2f.x (pivotPoint f);
         deltaYToPivot = Ball.y b - Vec2f.y (pivotPoint f)
     in sqrt (deltaXToPivot * deltaXToPivot + deltaYToPivot * deltaYToPivot))"

definition pivot_hit :: "Flipper \<Rightarrow> Ball \<Rightarrow> bool" where
  "pivot_hit f b \<longleftrightarrow> distanceToPivot f b < Ball.radius b + capRadius f"

definition pivot_resolve :: "Flipper \<Rightarrow> bool \<Rightarrow> int \<Rightarrow> real \<Rightarrow> Game \<Rightarrow> Game" where
  "pivot_resolve f active baseScore substepDeltaTime g =
    (let b = ball g;
         deltaXToPivot = Ball.x b - Vec2f.x (pivotPoint f);
         deltaYToPivot = Ball.y b - Vec2f.y (pivotPoint f);
         d = floor_distance (distanceToPivot f b);
         normalX = deltaXToPivot / d;
         normalY = deltaYToPivot / d;
         b1 = (if active
               then let v1 = b\<lparr>velocityX := velocityX b
                              + normalX * FLIPPER_IMPULSE_STRENGTH * substepDeltaTime\<rparr>
                    in v1\<lparr>velocityY := velocityY v1
                              + normalY * FLIPPER_IMPULSE_STRENGTH * substepDeltaTime\<rparr>
               else ReflectVelocity b normalX normalY FLIPPER_BOUNCE_FACTOR);
         b2 = b1\<lparr>Ball.x := Vec2f.x (pivotPoint f) + normalX * (Ball.radius b1 + capRadius f)\<rparr>;
         b3 = b2\<lparr>Ball.y := Vec2f.y (pivotPoint f) + normalY * (Ball.radius b2 + capRadius f)\<rparr>
     in g\<lparr>ball := b3, score := int32_wrap (score g + baseScore sdiv 2),
          playCollisionSound := True\<rparr>)"

text \<open>
  The three \<^verbatim>\<open>if\<close> statements of one iteration of the flipper loop, in the
  order of the source, each threading the game and the local \<^verbatim>\<open>hasCollided\<close>.
\<close>

definition tip_stage :: "Flipper \<Rightarrow> bool \<Rightarrow> int \<Rightarrow> real \<Rightarrow> Game \<times> bool \<Rightarrow> Game \<times> bool" where
  "tip_stage f active baseScore dt s =
    (case s of (g, hasCollided) \<Rightarrow>
      if tip_hit f (ball g) \<and> \<not> hasCollided
      then (tip_resolve f active baseScore dt g, True)
      else (g, hasCollided))"

definition shaft_stage :: "Flipper \<Rightarrow> bool \<Rightarrow> int \<Rightarrow> real \<Rightarrow> Game \<times> bool \<Rightarrow> Game \<times> bool" where
  "shaft_stage f active baseScore dt s =
    (case s of (g, hasCollided) \<Rightarrow>
      if \<not> hasCollided \<and> shaft_hit f (ball g)
      then (shaft_resolve f active baseScore dt g, True)
      else (g, hasCollided))"

definition pivot_stage :: "Flipper \<Rightarrow> bool \<Rightarrow> int \<Rightarrow> real \<Rightarrow> Game \<times> bool \<Rightarrow> Game \<times> bool" where
  "pivot_stage f active baseScore dt s =
    (case s of (g, hasCollided) \<Rightarrow>
      if \<not> hasCollided
      then (if pivot_hit f (ball g)
            then (pivot_resolve f active baseScore dt g, True)
            else (g, hasCollided))
      else (g, hasCollided))"

definition flipper_contact :: "Flipper \<Rightarrow> bool \<Rightarrow> int \<Rightarrow> real \<Rightarrow> Game \<Rightarrow> Game" where
  "flipper_contact f active baseScore dt g =
    fst (pivot_stage f active baseScore dt
          (shaft_stage f active baseScore dt
            (tip_stage f active baseScore dt (g, False))))"

text \<open>
  The loop over \<^verbatim>\<open>flipperIndex\<close>: the arrays \<^verbatim>\<open>flippers\<close> and
  \<^verbatim>\<open>flipperActive\<close> are copies made before the loop, so both iterations read the
  flippers of the game as they were on entry.
\<close>

definition flipper_loop :: "bool \<Rightarrow> bool \<Rightarrow> real \<Rightarrow> Game \<Rightarrow> Game" where
  "flipper_loop leftActive rightActive dt g =
    (let flippers = [leftFlipper g, rightFlipper g];
         flipperActive = [leftActive, rightActive]
     in fold (\<lambda>flipperIndex.
               flipper_contact (flippers ! flipperIndex) (flipperActive ! flipperIndex)
                 (flipperBaseScore ! flipperIndex) dt)
          [0, 1] g)"

subsection \<open>Planet contacts (lines 331 to 348)\<close>

text \<open>The test of line 337.\<close>

definition planet_hit :: "Planet \<Rightarrow> Ball \<Rightarrow> bool" where
  "planet_hit p b \<longleftrightarrow>
    (let deltaX = Ball.x b - Planet.x p;
         deltaY = Ball.y b - Planet.y p;
         distance = sqrt (deltaX * deltaX + deltaY * deltaY);
         minimumDistance = Ball.radius b + Planet.radius p
     in distance < minimumDistance \<and> distance > 1 / 10 ^ 5)"

definition planet_contact :: "Planet \<Rightarrow> Game \<Rightarrow> Game" where
  "planet_contact p g =
    (let b = ball g;
         deltaX = Ball.x b - Planet.x p;
         deltaY = Ball.y b - Planet.y p;
         distance = sqrt (deltaX * deltaX + deltaY * deltaY);
         minimumDistance = Ball.radius b + Planet.radius p
     in if planet_hit p b
        then let normalX = deltaX / distance;
                 normalY = deltaY / distance;
                 b1 = ReflectVelocity b normalX normalY PLANET_BOUNCE_FACTOR;
                 b2 = b1\<lparr>Ball.x := Planet.x p + normalX * minimumDistance\<rparr>;
                 b3 = b2\<lparr>Ball.y := Planet.y p + normalY * minimumDistance\<rparr>
             in g\<lparr>ball := b3, score := int32_wrap (score g + 5),
                  playCollisionSound := True\<rparr>
        else g)"

definition planet_loop :: "Game \<Rightarrow> Game" where
  "planet_loop g = fold planet_contact planets g"

subsection \<open>One substep, one frame, a run\<close>

definition physics_substep :: "Input \<Rightarrow> Game \<Rightarrow> Game" where
  "physics_substep i g =
    (let substepDeltaTime = frameTime i / real PHYSICS_SUBSTEPS;
         g1 = g\<lparr>ball := top_wall (right_wall (left_wall (integrate substepDeltaTime (ball g))))\<rparr>;
         g2 = drop_check g1;
         g3 = guide_lanes g2;
         g4 = flipper_loop (leftFlipperActive i) (rightFlipperActive i) substepDeltaTime g3
     in planet_loop g4)"

definition frame :: "Input \<Rightarrow> Game \<Rightarrow> Game" where
  "frame i g =
    ((physics_substep i) ^^ PHYSICS_SUBSTEPS)
      (update_flippers i (g\<lparr>playCollisionSound := False\<rparr>))"

text \<open>The while loop, run on the inputs that the window system delivers frame by frame.\<close>

definition run_frames :: "Input list \<Rightarrow> Game \<Rightarrow> Game" where
  "run_frames inputs g = fold frame inputs g"

section \<open>Notions of the specification\<close>

text \<open>The magnitude of the velocity of the ball.\<close>

definition speed :: "Ball \<Rightarrow> real" where
  "speed b = sqrt (velocityX b * velocityX b + velocityY b * velocityY b)"

text \<open>A game whose ball sits at a given place, at rest, everything else as at start.\<close>

definition ball_at :: "real \<Rightarrow> real \<Rightarrow> Ball" where
  "ball_at px py = initial_ball\<lparr>Ball.x := px, Ball.y := py\<rparr>"

definition game_with_ball_at :: "real \<Rightarrow> real \<Rightarrow> Game" where
  "game_with_ball_at px py = initial_game\<lparr>ball := ball_at px py\<rparr>"

text \<open>The angle of a flipper lies between its resting and its active angle.\<close>

definition angle_in_range :: "Flipper \<Rightarrow> bool" where
  "angle_in_range f \<longleftrightarrow>
     min (restingAngle f) (activeAngle f) \<le> currentAngle f
     \<and> currentAngle f \<le> max (restingAngle f) (activeAngle f)"

definition flippers_ok :: "Game \<Rightarrow> bool" where
  "flippers_ok g \<longleftrightarrow>
     angle_in_range (leftFlipper g) \<and> angle_in_range (rightFlipper g)
     \<and> 0 \<le> rotationSpeedDeg (leftFlipper g)"

text \<open>The target angle that a frame gives a flipper (lines 168 and 169).\<close>

definition target_angle :: "bool \<Rightarrow> Flipper \<Rightarrow> real" where
  "target_angle active f = (if active then activeAngle f else restingAngle f)"

text \<open>
  The flippers half way through their stroke, arm level: the left one at angle 0, the
  right one at 180 degrees. Both are the flippers after one frame of 1/32 s with both
  keys held (15 degrees at 480 degrees per second).
\<close>

definition level_leftFlipper :: Flipper where
  "level_leftFlipper = initial_leftFlipper\<lparr>currentAngle := 0\<rparr>"

definition level_rightFlipper :: Flipper where
  "level_rightFlipper = initial_rightFlipper\<lparr>currentAngle := 180 * DEG2RAD\<rparr>"

definition both_keys :: "real \<Rightarrow> Input" where
  "both_keys t = \<lparr>frameTime = t, leftFlipperActive = True, rightFlipperActive = True\<rparr>"

text \<open>
  The ball at rest on the shaft of the level left flipper, 14 above its middle, and a
  frame of zero length with no key held.
\<close>

definition resting_on_shaft :: Game where
  "resting_on_shaft =
    initial_game\<lparr>ball := ball_at 240 736, leftFlipper := level_leftFlipper,
      rightFlipper := level_rightFlipper\<rparr>"


text \<open>
  The velocity of the ball as a pair, and the normals that the three flipper
  branches compute (lines 247 to 249, 277 to 282 and 311 to 313).
\<close>

definition velocity :: "Ball \<Rightarrow> real \<times> real" where
  "velocity b = (velocityX b, velocityY b)"



definition shaft_parameter :: "Flipper \<Rightarrow> Ball \<Rightarrow> real" where
  "shaft_parameter f b = fst (ClosestPointOnSegment (pivotPoint f) (flipperEndPos f) (ball_center b))"









text \<open>The left guide lane of the start configuration (lines 217 to 220).\<close>

definition leftBoundaryStart :: Vec2f where
  "leftBoundaryStart = \<lparr>Vec2f.x = 0, Vec2f.y = 750 - 35 - 20\<rparr>"

definition leftBoundaryEnd :: Vec2f where
  "leftBoundaryEnd = \<lparr>Vec2f.x = 200, Vec2f.y = 750 - 35 + 20\<rparr>"

section \<open>Auxiliary facts\<close>

subsection \<open>Arithmetic\<close>

lemma DEG2RAD_pos: "0 < DEG2RAD"
  by (simp add: DEG2RAD_def)


lemma sqrt_square_numeral [simp]: "sqrt 400 = 20" "sqrt 100 = 10"
  by (rule real_sqrt_unique; simp)+


lemma c_trunc_of_int [simp]: "c_trunc (real_of_int k) = k"
  by (simp add: c_trunc_def)

lemma c_trunc_half: "0 \<le> k \<Longrightarrow> c_trunc (real_of_int k / 2) = k div 2"
  by (simp add: c_trunc_def floor_divide_of_int_eq [of k 2, simplified])





subsection \<open>Wrap-around and rounding\<close>




lemma rne_of_int [simp]: "rne (of_int n) = n"
  by (simp add: rne_def)





lemma float32_unfold: "r \<noteq> 0 \<Longrightarrow> float32 r = of_int (rne (r / f32_ulp r)) * f32_ulp r"
  by (simp add: float32_def)

lemma f32_ulp_pos: "0 < f32_ulp r"
  by (simp add: f32_ulp_def)








lemma float32_exact:
  assumes "0 < r" and "2 powr (of_int e) \<le> r" "r < 2 powr (of_int e + 1)" and "- 126 \<le> e"
    and "r / 2 powr (of_int e - 23) = of_int m"
  shows "float32 r = r"
proof -
  have "\<lfloor>log 2 r\<rfloor> = e"
    using floor_log_eq_powr_iff [of r 2 e] assms by simp
  then have e: "f32_exp r = e" using assms by (simp add: f32_exp_def)
  have u: "f32_ulp r = 2 powr (of_int e - 23)" by (simp add: f32_ulp_def e)
  have q: "r / f32_ulp r = of_int m" using assms(5) by (simp only: u)
  have "float32 r = of_int m * f32_ulp r"
    using assms(1) by (simp add: float32_unfold q)
  also have "\<dots> = (r / f32_ulp r) * f32_ulp r" by (simp only: q)
  also have "\<dots> = r" using f32_ulp_pos [of r] by simp
  finally show ?thesis .
qed

lemma float32_values:
  "float32 (1 / 4) = 1 / 4" "float32 (1 / 2) = 1 / 2" "float32 (3 / 4) = 3 / 4" "float32 1 = 1"
  "float32 5 = 5" "float32 (15 / 2) = 15 / 2" "float32 10 = 10" "float32 15 = 15"
  "float32 7 = 7"
proof -
  show "float32 (1 / 4) = 1 / 4"
    by (rule float32_exact [where e = "- 2" and m = "2 ^ 23"]) (simp_all add: powr_neg_numeral)
  show "float32 (1 / 2) = 1 / 2"
    by (rule float32_exact [where e = "- 1" and m = "2 ^ 23"]) (simp_all add: powr_neg_numeral)
  show "float32 (3 / 4) = 3 / 4"
    by (rule float32_exact [where e = "- 1" and m = "3 * 2 ^ 22"]) (simp_all add: powr_neg_numeral)
  show "float32 1 = 1"
    by (rule float32_exact [where e = 0 and m = "2 ^ 23"]) (simp_all add: powr_neg_numeral)
  show "float32 5 = 5"
    by (rule float32_exact [where e = 2 and m = "5 * 2 ^ 21"]) (simp_all add: powr_neg_numeral)
  show "float32 (15 / 2) = 15 / 2"
    by (rule float32_exact [where e = 2 and m = "15 * 2 ^ 20"]) (simp_all add: powr_neg_numeral)
  show "float32 10 = 10"
    by (rule float32_exact [where e = 3 and m = "10 * 2 ^ 20"]) (simp_all add: powr_neg_numeral)
  show "float32 15 = 15"
    by (rule float32_exact [where e = 3 and m = "15 * 2 ^ 20"]) (simp_all add: powr_neg_numeral)
  show "float32 7 = 7"
    by (rule float32_exact [where e = 2 and m = "7 * 2 ^ 21"]) (simp_all add: powr_neg_numeral)
qed

subsection \<open>The award of a shaft contact\<close>

lemma float32_eval:
  assumes "0 < r" and "2 powr (of_int e) \<le> r" "r < 2 powr (of_int e + 1)" and "- 126 \<le> e"
  shows "float32 r = of_int (rne (r / 2 powr (of_int e - 23))) * 2 powr (of_int e - 23)"
proof -
  have "\<lfloor>log 2 r\<rfloor> = e"
    using floor_log_eq_powr_iff [of r 2 e] assms by simp
  then have e: "f32_exp r = e" using assms by (simp add: f32_exp_def)
  show ?thesis using assms(1) by (simp add: float32_unfold f32_ulp_def e)
qed


lemma float32_zero [simp]: "float32 0 = 0"
  by (simp add: float32_def)




text \<open>
  Rounding is visible in the score: at this parameter the exact product is below 13 and
  the rounded one is 13.
\<close>

lemma shaft_award_rounds_up:
  "shaft_award 15 (12303291 / 16777216) = 13"
  "c_trunc (15 * (5 / 10 + (12303291 / 16777216) * (5 / 10))) = 12"
proof -
  have a: "float32 (12303291 / 33554432) = 12303291 / 33554432"
    by (rule float32_exact [where e = "- 2" and m = 12303291]) (simp_all add: powr_neg_numeral)
  have b: "float32 (29080507 / 33554432) = 7270127 / 8388608"
    by (subst float32_eval [where e = "- 1"]) (simp_all add: powr_neg_numeral rne_def)
  have c: "float32 (109051905 / 8388608) = 13"
    by (subst float32_eval [where e = 3]) (simp_all add: powr_neg_numeral rne_def)
  show "shaft_award 15 (12303291 / 16777216) = 13"
    by (simp add: shaft_award_def float32_values a b c c_trunc_def)
  show "c_trunc (15 * (5 / 10 + (12303291 / 16777216) * (5 / 10))) = 12"
    by (simp add: c_trunc_def)
qed

subsection \<open>Closest point\<close>









subsection \<open>Reflection\<close>

lemma reflect_closed_form:
  "ReflectVelocity b nx ny k =
    b\<lparr>velocityX := k * (velocityX b - 2 * (velocityX b * nx + velocityY b * ny) * nx),
      velocityY := k * (velocityY b - 2 * (velocityX b * nx + velocityY b * ny) * ny)\<rparr>"
  by (simp add: ReflectVelocity_def Let_def mult.commute)

lemma speed_along_normal:
  assumes n: "nx * nx + ny * ny = 1" and vx: "velocityX b = c * nx" and vy: "velocityY b = c * ny"
    and k: "0 \<le> k"
  shows "speed (ReflectVelocity b nx ny k) = k * speed b"
proof -
  have d: "velocityX b * nx + velocityY b * ny = c"
    using n by (simp add: vx vy algebra_simps) (metis distrib_left mult.right_neutral)
  have vx': "velocityX (ReflectVelocity b nx ny k) = k * (- velocityX b)"
    by (simp add: reflect_closed_form d) (simp add: vx)
  have vy': "velocityY (ReflectVelocity b nx ny k) = k * (- velocityY b)"
    by (simp add: reflect_closed_form d) (simp add: vy)
  have "speed (ReflectVelocity b nx ny k)
      = sqrt (k * k * (velocityX b * velocityX b + velocityY b * velocityY b))"
    unfolding speed_def vx' vy' by (simp add: algebra_simps)
  also have "\<dots> = k * speed b"
    using k by (simp add: speed_def real_sqrt_mult)
  finally show ?thesis .
qed

subsection \<open>The flipper cascade and what it leaves alone\<close>

lemma flipper_contact_cascade:
  "flipper_contact f active baseScore dt g =
    (if tip_hit f (ball g) then tip_resolve f active baseScore dt g
     else if shaft_hit f (ball g) then shaft_resolve f active baseScore dt g
     else if pivot_hit f (ball g) then pivot_resolve f active baseScore dt g
     else g)"
  by (simp add: flipper_contact_def tip_stage_def shaft_stage_def pivot_stage_def)

lemma tip_resolve_flippers [simp]:
  "leftFlipper (tip_resolve f a k dt g) = leftFlipper g"
  "rightFlipper (tip_resolve f a k dt g) = rightFlipper g"
  by (simp_all add: tip_resolve_def Let_def)

lemma shaft_resolve_flippers [simp]:
  "leftFlipper (shaft_resolve f a k dt g) = leftFlipper g"
  "rightFlipper (shaft_resolve f a k dt g) = rightFlipper g"
  by (simp_all add: shaft_resolve_def Let_def)

lemma pivot_resolve_flippers [simp]:
  "leftFlipper (pivot_resolve f a k dt g) = leftFlipper g"
  "rightFlipper (pivot_resolve f a k dt g) = rightFlipper g"
  by (simp_all add: pivot_resolve_def Let_def)

lemma flipper_contact_flippers [simp]:
  "leftFlipper (flipper_contact f a k dt g) = leftFlipper g"
  "rightFlipper (flipper_contact f a k dt g) = rightFlipper g"
  by (simp_all add: flipper_contact_cascade)

lemma flipper_loop_flippers [simp]:
  "leftFlipper (flipper_loop l r dt g) = leftFlipper g"
  "rightFlipper (flipper_loop l r dt g) = rightFlipper g"
  by (simp_all add: flipper_loop_def Let_def)

lemma planet_contact_flippers [simp]:
  "leftFlipper (planet_contact p g) = leftFlipper g"
  "rightFlipper (planet_contact p g) = rightFlipper g"
  by (simp_all add: planet_contact_def Let_def)

lemma fold_planet_contact_flippers:
  "leftFlipper (fold planet_contact ps g) = leftFlipper g
   \<and> rightFlipper (fold planet_contact ps g) = rightFlipper g"
  by (induction ps arbitrary: g) simp_all

lemma physics_substep_flippers [simp]:
  "leftFlipper (physics_substep i g) = leftFlipper g"
  "rightFlipper (physics_substep i g) = rightFlipper g"
  by (simp_all add: physics_substep_def Let_def planet_loop_def fold_planet_contact_flippers
      guide_lanes_def drop_check_def)

lemma substeps_flippers [simp]:
  "leftFlipper ((physics_substep i ^^ n) g) = leftFlipper g"
  "rightFlipper ((physics_substep i ^^ n) g) = rightFlipper g"
  by (induction n) simp_all

lemma frame_flippers:
  "leftFlipper (frame i g) = (leftFlipper g)\<lparr>currentAngle :=
      update_angle (currentAngle (leftFlipper g)) (target_angle (leftFlipperActive i) (leftFlipper g))
        (rotationSpeedDeg (leftFlipper g) * DEG2RAD * frameTime i)\<rparr>"
  "rightFlipper (frame i g) = (rightFlipper g)\<lparr>currentAngle :=
      update_angle (currentAngle (rightFlipper g)) (target_angle (rightFlipperActive i) (rightFlipper g))
        (rotationSpeedDeg (leftFlipper g) * DEG2RAD * frameTime i)\<rparr>"
  by (simp_all add: frame_def update_flippers_def target_angle_def Let_def)

subsection \<open>Flipper angles\<close>

lemma update_angle_between:
  assumes "0 \<le> delta"
  shows "min current target \<le> update_angle current target delta
       \<and> update_angle current target delta \<le> max current target"
  using assms by (auto simp: update_angle_def Let_def)

lemma angle_in_range_update:
  assumes "angle_in_range f" "0 \<le> delta"
  shows "angle_in_range
    (f\<lparr>currentAngle := update_angle (currentAngle f) (target_angle active f) delta\<rparr>)"
  using assms update_angle_between [of delta "currentAngle f" "target_angle active f"]
  by (auto simp: angle_in_range_def target_angle_def)

lemma frame_flippers_ok:
  assumes "flippers_ok g" "0 \<le> frameTime i"
  shows "flippers_ok (frame i g)"
proof -
  have d: "0 \<le> rotationSpeedDeg (leftFlipper g) * DEG2RAD * frameTime i"
    using assms DEG2RAD_pos by (simp add: flippers_ok_def)
  show ?thesis
    using assms d by (simp add: frame_flippers flippers_ok_def angle_in_range_update)
qed

lemma run_frames_flippers_ok:
  assumes "flippers_ok g" "\<forall>i \<in> set inputs. 0 \<le> frameTime i"
  shows "flippers_ok (run_frames inputs g)"
  using assms unfolding run_frames_def
  by (induction inputs arbitrary: g) (simp_all add: frame_flippers_ok)

lemma initial_flippers_ok: "flippers_ok initial_game"
  by (simp add: flippers_ok_def initial_game_def initial_leftFlipper_def
      initial_rightFlipper_def angle_in_range_def DEG2RAD_def)

text \<open>The level flippers are the flippers after one frame of 1/32 s with both keys held.\<close>

lemma level_flippers_reached:
  "leftFlipper (frame (both_keys (1 / 32)) initial_game) = level_leftFlipper"
  "rightFlipper (frame (both_keys (1 / 32)) initial_game) = level_rightFlipper"
  by (simp_all add: frame_flippers both_keys_def target_angle_def update_angle_def
      initial_game_def initial_leftFlipper_def initial_rightFlipper_def
      level_leftFlipper_def level_rightFlipper_def DEG2RAD_def)

subsection \<open>Score\<close>

lemma tip_resolve_score [simp]:
  "score (tip_resolve f a k dt g) = int32_wrap (score g + k)"
  by (simp add: tip_resolve_def Let_def)

lemma shaft_resolve_score [simp]:
  "score (shaft_resolve f a k dt g) =
     int32_wrap (score g + shaft_award k (shaft_parameter f (ball g)))"
  by (simp add: shaft_resolve_def shaft_parameter_def Let_def)

lemma pivot_resolve_score [simp]:
  "score (pivot_resolve f a k dt g) = int32_wrap (score g + k sdiv 2)"
  by (simp add: pivot_resolve_def Let_def)










lemma guide_lanes_score [simp]: "score (guide_lanes g) = score g"
  by (simp add: guide_lanes_def Let_def)

lemma update_flippers_score [simp]: "score (update_flippers i g) = score g"
  by (simp add: update_flippers_def Let_def)





subsection \<open>Actuated contacts\<close>




subsection \<open>Concrete scenes\<close>

lemma ball_at_fields [simp]:
  "Ball.x (ball_at px py) = px" "Ball.y (ball_at px py) = py" "Ball.radius (ball_at px py) = 14"
  "velocityX (ball_at px py) = 0" "velocityY (ball_at px py) = 0"
  by (simp_all add: ball_at_def initial_ball_def)

lemma velocity_ball_at [simp]: "velocity (ball_at px py) = (0, 0)"
  by (simp add: velocity_def)

lemma game_with_ball_at_fields [simp]:
  "ball (game_with_ball_at px py) = ball_at px py" "score (game_with_ball_at px py) = 0"
  by (simp_all add: game_with_ball_at_def initial_game_def)















text \<open>The guide lanes of the program are these segments.\<close>

lemma guide_lanes_left_boundary:
  "ball (guide_lanes (game_with_ball_at px py)) =
    SeparateCircleFromSegment
      (SeparateCircleFromSegment (ball_at px py) leftBoundaryStart leftBoundaryEnd)
      \<lparr>Vec2f.x = 400, Vec2f.y = 735\<rparr> \<lparr>Vec2f.x = 600, Vec2f.y = 695\<rparr>"
  by (simp add: guide_lanes_def Let_def game_with_ball_at_def initial_game_def
      initial_leftFlipper_def initial_rightFlipper_def leftBoundaryStart_def leftBoundaryEnd_def
      SCREEN_WIDTH_def SCREEN_HEIGHT_def)





lemma trap_ball [simp]:
  "integrate 0 (ball_at 240 736) = ball_at 240 736"
  "left_wall (ball_at 240 736) = ball_at 240 736"
  "right_wall (ball_at 240 736) = ball_at 240 736"
  "top_wall (ball_at 240 736) = ball_at 240 736"
  by (simp_all add: integrate_def left_wall_def right_wall_def top_wall_def SCREEN_WIDTH_def
      Let_def)

lemma trap_fields [simp]:
  "ball (resting_on_shaft\<lparr>score := k, playCollisionSound := p\<rparr>) = ball_at 240 736"
  "leftFlipper (resting_on_shaft\<lparr>score := k, playCollisionSound := p\<rparr>) = level_leftFlipper"
  "rightFlipper (resting_on_shaft\<lparr>score := k, playCollisionSound := p\<rparr>) = level_rightFlipper"
  "score (resting_on_shaft\<lparr>score := k, playCollisionSound := p\<rparr>) = k"
  by (simp_all add: resting_on_shaft_def)





lemma sqrt_196 [simp]: "sqrt 196 = 14"
  by (rule real_sqrt_unique) simp_all





text \<open>A run of idle frames of zero length, the ball at rest on the shaft.\<close>

lemma update_angle_zero [simp]: "update_angle c t 0 = c"
  by (simp add: update_angle_def Let_def)






subsection \<open>Normals and distances\<close>






section \<open>Actuated flipper contacts\<close>



section \<open>Drop\<close>

text \<open>
  Claim C2, as stated: past the bottom margin the ball returns to its configured spawn
  position, the position of line 134. The drop puts the ball at \<open>x = 300\<close>, and the
  ball of line 134 starts at \<open>x = 460\<close>.
\<close>

theorem drop_not_at_spawn:
  "Ball.y (ball (game_with_ball_at 460 1001)) > real_of_int (SCREEN_HEIGHT + 100)
   \<and> Ball.x (ball (drop_check (game_with_ball_at 460 1001))) \<noteq> Ball.x initial_ball"
  by (simp add: drop_check_def SCREEN_HEIGHT_def initial_ball_def)

text \<open>
  Claim C2, amended. Whenever the y coordinate of the ball exceeds the screen height plus
  100 (1000), the drop check puts the ball at the fixed coordinates (300, 450), sets both
  velocity components to zero and the score to 0, whatever the score was; the flippers and
  the radius of the ball are untouched.
\<close>

theorem drop_resets:
  assumes "Ball.y (ball g) > real_of_int (SCREEN_HEIGHT + 100)"
  shows "drop_check g =
    g\<lparr>ball := (ball g)\<lparr>Ball.x := 300, Ball.y := 450, velocityX := 0, velocityY := 0\<rparr>,
      score := 0\<rparr>"
  using assms by (simp add: drop_check_def)

theorem drop_resets_witness:
  "Ball.y (ball ((game_with_ball_at 120 1001)\<lparr>score := 735\<rparr>)) > real_of_int (SCREEN_HEIGHT + 100)
   \<and> score (drop_check ((game_with_ball_at 120 1001)\<lparr>score := 735\<rparr>)) = 0
   \<and> ball (drop_check ((game_with_ball_at 120 1001)\<lparr>score := 735\<rparr>))
      = \<lparr>Ball.x = 300, Ball.y = 450, Ball.radius = 14, velocityX = 0, velocityY = 0\<rparr>"
  using drop_resets [of "(game_with_ball_at 120 1001)\<lparr>score := 735\<rparr>"]
  by (simp add: game_with_ball_at_def ball_at_def initial_game_def initial_ball_def
      SCREEN_HEIGHT_def)

section \<open>Flipper scoring\<close>




section \<open>Separation distance\<close>




section \<open>Flipper angle\<close>

text \<open>
  Claim C5. On every run of the game from its start, over any sequence of frames whose
  frame times are not negative, however large, the current angle of each flipper lies in
  the closed interval between its resting and its active angle; and the easing of the
  next frame never moves the angle past the target: the new angle lies between the old
  angle and the target angle of that frame.
\<close>

theorem flipper_angle_stays_in_range:
  assumes "\<forall>i \<in> set inputs. 0 \<le> frameTime i"
  shows "angle_in_range (leftFlipper (run_frames inputs initial_game))
    \<and> angle_in_range (rightFlipper (run_frames inputs initial_game))
    \<and> (0 \<le> frameTime i \<longrightarrow>
        min (currentAngle (leftFlipper (run_frames inputs initial_game)))
            (target_angle (leftFlipperActive i) (leftFlipper (run_frames inputs initial_game)))
          \<le> currentAngle (leftFlipper (frame i (run_frames inputs initial_game)))
        \<and> currentAngle (leftFlipper (frame i (run_frames inputs initial_game)))
          \<le> max (currentAngle (leftFlipper (run_frames inputs initial_game)))
              (target_angle (leftFlipperActive i) (leftFlipper (run_frames inputs initial_game)))
        \<and> min (currentAngle (rightFlipper (run_frames inputs initial_game)))
            (target_angle (rightFlipperActive i) (rightFlipper (run_frames inputs initial_game)))
          \<le> currentAngle (rightFlipper (frame i (run_frames inputs initial_game)))
        \<and> currentAngle (rightFlipper (frame i (run_frames inputs initial_game)))
          \<le> max (currentAngle (rightFlipper (run_frames inputs initial_game)))
              (target_angle (rightFlipperActive i) (rightFlipper (run_frames inputs initial_game))))"
proof -
  define g where "g = run_frames inputs initial_game"
  have ok: "flippers_ok g"
    unfolding g_def using initial_flippers_ok assms by (rule run_frames_flippers_ok)
  have range: "angle_in_range (leftFlipper g) \<and> angle_in_range (rightFlipper g)"
    using ok by (simp add: flippers_ok_def)
  have step: "min (currentAngle (leftFlipper g)) (target_angle (leftFlipperActive i) (leftFlipper g))
          \<le> currentAngle (leftFlipper (frame i g))
        \<and> currentAngle (leftFlipper (frame i g))
          \<le> max (currentAngle (leftFlipper g)) (target_angle (leftFlipperActive i) (leftFlipper g))
        \<and> min (currentAngle (rightFlipper g)) (target_angle (rightFlipperActive i) (rightFlipper g))
          \<le> currentAngle (rightFlipper (frame i g))
        \<and> currentAngle (rightFlipper (frame i g))
          \<le> max (currentAngle (rightFlipper g)) (target_angle (rightFlipperActive i) (rightFlipper g))"
    if "0 \<le> frameTime i"
  proof -
    have d: "0 \<le> rotationSpeedDeg (leftFlipper g) * DEG2RAD * frameTime i"
      using ok that DEG2RAD_pos by (simp add: flippers_ok_def)
    show ?thesis
      using update_angle_between [OF d, of "currentAngle (leftFlipper g)"
          "target_angle (leftFlipperActive i) (leftFlipper g)"]
        update_angle_between [OF d, of "currentAngle (rightFlipper g)"
          "target_angle (rightFlipperActive i) (rightFlipper g)"]
      by (simp add: frame_flippers)
  qed
  show ?thesis
    using range step unfolding g_def by blast
qed

text \<open>
  One frame of 100 seconds with both keys held: each flipper stops at its active angle.
\<close>

theorem flipper_angle_stays_in_range_witness:
  "0 \<le> frameTime (both_keys 100)
   \<and> angle_in_range (leftFlipper (run_frames [both_keys 100] initial_game))
   \<and> angle_in_range (rightFlipper (run_frames [both_keys 100] initial_game))
   \<and> currentAngle (leftFlipper (run_frames [both_keys 100] initial_game)) = - 45 * DEG2RAD
   \<and> currentAngle (rightFlipper (run_frames [both_keys 100] initial_game)) = 225 * DEG2RAD"
proof -
  have h: "\<forall>i \<in> set [both_keys 100]. 0 \<le> frameTime i"
    by (simp add: both_keys_def)
  have l: "currentAngle (leftFlipper (run_frames [both_keys 100] initial_game)) = - 45 * DEG2RAD"
    by (simp add: run_frames_def frame_flippers both_keys_def target_angle_def update_angle_def
        initial_game_def initial_leftFlipper_def DEG2RAD_def)
  have r: "currentAngle (rightFlipper (run_frames [both_keys 100] initial_game)) = 225 * DEG2RAD"
    by (simp add: run_frames_def frame_flippers both_keys_def target_angle_def update_angle_def
        initial_game_def initial_leftFlipper_def initial_rightFlipper_def DEG2RAD_def)
  have t: "0 \<le> frameTime (both_keys 100)"
    by (simp add: both_keys_def)
  show ?thesis
    using flipper_angle_stays_in_range [OF h] t l r by blast
qed

section \<open>Reflection\<close>

text \<open>
  Claim C6. \<^verbatim>\<open>ReflectVelocity\<close> sets the velocity of the ball to
  \<open>bounceFactor * (v - 2 (v . n) n)\<close> and changes no other field of the ball. When
  \<open>n\<close> is a unit vector, the incoming velocity is a multiple of \<open>n\<close> and the bounce
  factor is not negative, the outgoing speed is the bounce factor times the incoming
  speed.
\<close>

theorem reflect_velocity_law:
  "ReflectVelocity b nx ny bounceFactor =
     b\<lparr>velocityX := bounceFactor
          * (velocityX b - 2 * (velocityX b * nx + velocityY b * ny) * nx),
       velocityY := bounceFactor
          * (velocityY b - 2 * (velocityX b * nx + velocityY b * ny) * ny)\<rparr>
   \<and> (nx * nx + ny * ny = 1 \<and> velocityX b = c * nx \<and> velocityY b = c * ny
        \<and> 0 \<le> bounceFactor
      \<longrightarrow> speed (ReflectVelocity b nx ny bounceFactor) = bounceFactor * speed b)"
  using speed_along_normal [of nx ny b c bounceFactor]
  by (simp add: reflect_closed_form)

theorem reflect_velocity_law_witness:
  "(3 / 5) * (3 / 5) + (4 / 5) * (4 / 5) = (1 :: real)
   \<and> velocityX (initial_ball\<lparr>velocityX := 3, velocityY := 4\<rparr>) = 5 * (3 / 5)
   \<and> velocityY (initial_ball\<lparr>velocityX := 3, velocityY := 4\<rparr>) = 5 * (4 / 5)
   \<and> (0 :: real) \<le> 9 / 10
   \<and> ReflectVelocity (initial_ball\<lparr>velocityX := 3, velocityY := 4\<rparr>) (3 / 5) (4 / 5) (9 / 10)
      = initial_ball\<lparr>velocityX := - (27 / 10), velocityY := - (36 / 10)\<rparr>
   \<and> speed (ReflectVelocity (initial_ball\<lparr>velocityX := 3, velocityY := 4\<rparr>) (3 / 5) (4 / 5) (9 / 10))
      = 9 / 10 * speed (initial_ball\<lparr>velocityX := 3, velocityY := 4\<rparr>)"
proof -
  have h: "(3 / 5) * (3 / 5) + (4 / 5) * (4 / 5) = (1 :: real)
      \<and> velocityX (initial_ball\<lparr>velocityX := 3, velocityY := 4\<rparr>) = 5 * (3 / 5)
      \<and> velocityY (initial_ball\<lparr>velocityX := 3, velocityY := 4\<rparr>) = 5 * (4 / 5)
      \<and> (0 :: real) \<le> 9 / 10"
    by simp
  note law = reflect_velocity_law [of "initial_ball\<lparr>velocityX := 3, velocityY := 4\<rparr>"
      "3 / 5" "4 / 5" "9 / 10" 5]
  have v: "ReflectVelocity (initial_ball\<lparr>velocityX := 3, velocityY := 4\<rparr>) (3 / 5) (4 / 5) (9 / 10)
      = initial_ball\<lparr>velocityX := - (27 / 10), velocityY := - (36 / 10)\<rparr>"
    by (subst law [THEN conjunct1]) simp
  have sp: "speed (ReflectVelocity (initial_ball\<lparr>velocityX := 3, velocityY := 4\<rparr>)
        (3 / 5) (4 / 5) (9 / 10))
      = 9 / 10 * speed (initial_ball\<lparr>velocityX := 3, velocityY := 4\<rparr>)"
    using law [THEN conjunct2] h by blast
  show ?thesis using h v sp by blast
qed

section \<open>Left wall\<close>

text \<open>
  Claim C7. When the ball overlaps the left wall (\<open>x - radius < 0\<close>), the wall response
  puts the ball at \<open>x = radius\<close> and multiplies the horizontal velocity by \<open>- 0.7\<close>,
  so its sign flips and its magnitude is scaled by the wall bounce factor; the vertical
  velocity, the y position and the radius are as before.
\<close>

theorem left_wall_response:
  assumes "Ball.x b - Ball.radius b < 0"
  shows "left_wall b = b\<lparr>Ball.x := Ball.radius b, velocityX := - (7 / 10) * velocityX b\<rparr>"
  using assms by (simp add: left_wall_def WALL_BOUNCE_FACTOR_def)

theorem left_wall_response_witness:
  "Ball.x (initial_ball\<lparr>Ball.x := 10, velocityX := - 20, velocityY := 3\<rparr>)
     - Ball.radius (initial_ball\<lparr>Ball.x := 10, velocityX := - 20, velocityY := 3\<rparr>) < 0
   \<and> left_wall (initial_ball\<lparr>Ball.x := 10, velocityX := - 20, velocityY := 3\<rparr>)
     = \<lparr>Ball.x = 14, Ball.y = 450, Ball.radius = 14, velocityX = 14, velocityY = 3\<rparr>"
  using left_wall_response [of "initial_ball\<lparr>Ball.x := 10, velocityX := - 20, velocityY := 3\<rparr>"]
  by (simp add: initial_ball_def)

section \<open>Contact priority\<close>

text \<open>
  Claim C8. One iteration of the flipper loop resolves at most one contact, chosen in the
  order tip cap, shaft segment, pivot cap: the three statements of the source, run one
  after the other with the \<^verbatim>\<open>hasCollided\<close> flag, give exactly the result of the
  first branch whose test holds on the ball as it entered the iteration, and leave the
  game alone when none holds. A later test is never taken on the ball that an earlier
  branch has moved.
\<close>

theorem flipper_contact_priority:
  "flipper_contact f active baseScore dt g =
    (if tip_hit f (ball g) then tip_resolve f active baseScore dt g
     else if shaft_hit f (ball g) then shaft_resolve f active baseScore dt g
     else if pivot_hit f (ball g) then pivot_resolve f active baseScore dt g
     else g)"
  by (simp add: flipper_contact_def tip_stage_def shaft_stage_def pivot_stage_def)

section \<open>Separation writes the position only\<close>

text \<open>
  Claim C9. \<^verbatim>\<open>SeparateCircleFromSegment\<close> writes only the position of the ball:
  the result is the ball it was given with new \<open>x\<close> and \<open>y\<close>, so the velocity and
  the radius are unchanged. The guide lanes, which call it twice, change nothing of the
  game but the position of the ball: flippers, score and the sound flag stay as they were.
\<close>

theorem separation_writes_position_only:
  "SeparateCircleFromSegment b segmentStart segmentEnd =
     b\<lparr>Ball.x := Ball.x (SeparateCircleFromSegment b segmentStart segmentEnd),
       Ball.y := Ball.y (SeparateCircleFromSegment b segmentStart segmentEnd)\<rparr>
   \<and> velocityX (SeparateCircleFromSegment b segmentStart segmentEnd) = velocityX b
   \<and> velocityY (SeparateCircleFromSegment b segmentStart segmentEnd) = velocityY b
   \<and> Ball.radius (SeparateCircleFromSegment b segmentStart segmentEnd) = Ball.radius b
   \<and> guide_lanes g =
     g\<lparr>ball := (ball g)\<lparr>Ball.x := Ball.x (ball (guide_lanes g)),
                        Ball.y := Ball.y (ball (guide_lanes g))\<rparr>\<rparr>"
  by (simp add: guide_lanes_def SeparateCircleFromSegment_def Let_def)

section \<open>The score and its 32 bits\<close>




end
